theory Spec2Isabelle
  imports Main "HOL-Library.Word"
begin

section \<open>Strings, integers and formatting\<close>

text \<open>
  The program is \<^verbatim>\<open>src/portal/portal.go\<close>. Go's \<^verbatim>\<open>int64\<close> is a 64-bit word that is
  compared as a signed number (\<open><s\<close>); Go's strings are byte strings.
\<close>

type_synonym int64 = "64 word"

text \<open>\<^verbatim>\<open>strings.Split(s, sep)\<close> for a separator of one byte: always at least one field.\<close>

fun strings_Split :: "string \<Rightarrow> char \<Rightarrow> string list" where
  "strings_Split [] c = [[]]"
| "strings_Split (x # xs) c =
     (if x = c then [] # strings_Split xs c
      else (case strings_Split xs c of
              [] \<Rightarrow> [[x]]
            | f # fs \<Rightarrow> (x # f) # fs))"




fun digits :: "nat \<Rightarrow> string" where
  "digits n = (if n < 10 then [''0123456789'' ! n]
               else digits (n div 10) @ [''0123456789'' ! (n mod 10)])"

declare digits.simps [simp del]

text \<open>The verb \<^verbatim>\<open>%d\<close> of \<^verbatim>\<open>fmt\<close>.\<close>

definition fmt_int :: "int \<Rightarrow> string" where
  "fmt_int x = (if x < 0 then ''-'' else '''') @ digits (nat \<bar>x\<bar>)"

definition fmt_d :: "int64 \<Rightarrow> string" where
  "fmt_d x = fmt_int (sint x)"

text \<open>
  \<^verbatim>\<open>appendInt\<close> of package \<^verbatim>\<open>time\<close>: the decimal form of \<open>x\<close>, padded with zeros to
  \<open>width\<close> digits, after the sign.
\<close>

definition appendInt :: "int \<Rightarrow> nat \<Rightarrow> string" where
  "appendInt x width =
     (let ds = digits (nat \<bar>x\<bar>)
      in (if x < 0 then ''-'' else '''') @ replicate (width - length ds) CHR ''0'' @ ds)"

section \<open>Errors\<close>

text \<open>
  An error value is either one the operating system or the HTTP transport reports, or one
  the program builds with \<^verbatim>\<open>fmt.Errorf\<close>: \<open>Wrapped m e\<close> for the format \<^verbatim>\<open>m: %v\<close>,
  \<open>WrappedLn m e\<close> for the same format followed by a newline.
\<close>

datatype err =
    Errno string
  | Wrapped string err
  | WrappedLn string err
  | BadStatus int
  | InvalidUrl string

fun err_msg :: "err \<Rightarrow> string" where
  "err_msg (Errno s) = s"
| "err_msg (Wrapped m e) = m @ '': '' @ err_msg e"
| "err_msg (WrappedLn m e) = m @ '': '' @ err_msg e @ [CHR 0x0A]"
| "err_msg (BadStatus code) = ''unexpected status code: '' @ fmt_int code"
| "err_msg (InvalidUrl u) = ''invalid log file url: {'' @ u @ ''}''"

section \<open>The world outside the program\<close>

subsection \<open>HTTP\<close>

record request =
  rmethod :: string
  rurl :: string
  rheader :: "(string \<times> string) list"

text \<open>
  A response body is what successive \<^verbatim>\<open>Read\<close> calls return: chunks of bytes, then the
  end of the stream or a read error.
\<close>

record body =
  chunks :: "string list"
  read_err :: "err option"

record response =
  StatusCode :: int
  declared_length :: "int64 option"
  Body :: body

text \<open>
  \<^verbatim>\<open>resp.ContentLength\<close>: the length the response declares, and \<open>-1\<close> when it declares
  none (the convention of \<^verbatim>\<open>net/http\<close>).
\<close>

definition ContentLength :: "response \<Rightarrow> int64" where
  "ContentLength resp = (case declared_length resp of None \<Rightarrow> - 1 | Some n \<Rightarrow> n)"

text \<open>
  The network as one poll sees it: whether \<^verbatim>\<open>http.NewRequest\<close> accepts the URL, and what
  \<^verbatim>\<open>client.Do\<close> answers to a request.
\<close>

record net =
  url_err :: "string \<Rightarrow> err option"
  round_trip :: "request \<Rightarrow> err + response"

definition header_Set :: "(string \<times> string) list \<Rightarrow> string \<Rightarrow> string \<Rightarrow> (string \<times> string) list" where
  "header_Set h k v = (k, v) # filter (\<lambda>kv. fst kv \<noteq> k) h"

definition http_NewRequest :: "net \<Rightarrow> string \<Rightarrow> string \<Rightarrow> err + request" where
  "http_NewRequest nt m u =
     (case url_err nt u of
        Some e \<Rightarrow> Inl e
      | None \<Rightarrow> Inr \<lparr>rmethod = m, rurl = u, rheader = []\<rparr>)"

subsection \<open>Time\<close>

text \<open>
  A \<^verbatim>\<open>time.Time\<close> as the program reads it: its \<^verbatim>\<open>UnixMilli()\<close> and the calendar fields
  that \<^verbatim>\<open>Format\<close> prints, in the location the time was converted to.
\<close>

record gotime =
  unixMilli :: int64
  year :: int
  month :: int
  day :: int
  hour :: int
  minute :: int
  second :: int
  nanosecond :: int


definition location :: string where
  "location = ''Asia/Shanghai''"

text \<open>
  \<^verbatim>\<open>t.Format(timeLayout)\<close>, element by element of the layout: the year on four digits,
  month, day, hour, minute and second on two, and the first three of the nine digits of
  the nanoseconds.
\<close>

definition time_Format :: "gotime \<Rightarrow> string" where
  "time_Format t =
     appendInt (year t) 4 @ ''-'' @ appendInt (month t) 2 @ ''-'' @ appendInt (day t) 2 @
     ''T'' @ appendInt (hour t) 2 @ ''-'' @ appendInt (minute t) 2 @ ''-'' @
     appendInt (second t) 2 @ ''.'' @ take 3 (appendInt (nanosecond t) 9)"

subsection \<open>Files\<close>

text \<open>
  The file system is a tree. A path is resolved against the working directory of the
  process; an open file is a descriptor that remembers the path and the flags it was
  opened with (the program closes a file before it renames it).
\<close>

datatype node = FileN string | DirN "(string \<times> node) list"

datatype oflag = O_RDWR | O_CREATE | O_APPEND

datatype sysop = OpStdout | OpWrite | OpSync | OpClose | OpRename | OpOpen | OpRemove
  | OpLstat | OpReadDir

text \<open>
  What the program does to the outside, in order: the requests it sends and the system
  calls that name a path or a descriptor. \<open>RotateCalled\<close> marks an entry into
  \<^verbatim>\<open>RotateFile\<close>.
\<close>

datatype event =
    NetDo request
  | RotateCalled
  | SysSync nat
  | SysClose nat
  | SysRename string string
  | SysOpen string "oflag list"
  | SysRemove string
  | SysLstat string
  | SysReadDir string

record world =
  fsroot :: node
  cwd :: "string list"
  fdtab :: "nat \<Rightarrow> (string list \<times> oflag list) option"
  next_fd :: nat
  stdout :: string
  clock :: "string \<Rightarrow> gotime"
  fault :: "sysop \<Rightarrow> bool"
  trace :: "event list"

definition emit :: "event \<Rightarrow> world \<Rightarrow> world" where
  "emit e w = w\<lparr>trace := trace w @ [e]\<rparr>"

definition client_Do :: "net \<Rightarrow> request \<Rightarrow> world \<Rightarrow> (err + response) \<times> world" where
  "client_Do nt req w = (round_trip nt req, emit (NetDo req) w)"

definition norm_step :: "string list \<Rightarrow> string \<Rightarrow> string list" where
  "norm_step acc c =
     (if c = [] \<or> c = ''.'' then acc
      else if c = ''..'' then butlast acc
      else acc @ [c])"

definition resolve :: "string list \<Rightarrow> string \<Rightarrow> string list" where
  "resolve wd p =
     foldl norm_step (if p \<noteq> [] \<and> hd p = CHR ''/'' then [] else wd) (strings_Split p CHR ''/'')"

text \<open>
  \<^verbatim>\<open>filepath.Join\<close> of two elements: empty elements are ignored. (Its lexical cleaning of
  the result is what \<open>resolve\<close> does when the path is used.)
\<close>

definition filepath_Join :: "string \<Rightarrow> string \<Rightarrow> string" where
  "filepath_Join a b = (if a = [] then b else if b = [] then a else a @ ''/'' @ b)"

fun lookup :: "node \<Rightarrow> string list \<Rightarrow> node option" where
  "lookup n [] = Some n"
| "lookup (FileN s) (c # cs) = None"
| "lookup (DirN es) (c # cs) =
     (case map_of es c of None \<Rightarrow> None | Some n \<Rightarrow> lookup n cs)"

fun set_entry :: "string \<Rightarrow> node option \<Rightarrow> (string \<times> node) list \<Rightarrow> (string \<times> node) list" where
  "set_entry c None es = filter (\<lambda>kv. fst kv \<noteq> c) es"
| "set_entry c (Some n) es =
     (if map_of es c = None then es @ [(c, n)]
      else map (\<lambda>kv. if fst kv = c then (c, n) else kv) es)"

text \<open>Change the entry a path names, inside its parent directory.\<close>

fun alter :: "string list \<Rightarrow> (node option \<Rightarrow> node option) \<Rightarrow> node \<Rightarrow> node option" where
  "alter [] f n = None"
| "alter (c # cs) f (FileN s) = None"
| "alter [c] f (DirN es) = Some (DirN (set_entry c (f (map_of es c)) es))"
| "alter (c # cs) f (DirN es) =
     (case map_of es c of
        None \<Rightarrow> None
      | Some sub \<Rightarrow>
          (case alter cs f sub of
             None \<Rightarrow> None
           | Some sub' \<Rightarrow> Some (DirN (set_entry c (Some sub') es))))"

definition os_Remove :: "string \<Rightarrow> world \<Rightarrow> err option \<times> world" where
  "os_Remove name w =
     (let w1 = emit (SysRemove name) w; p = resolve (cwd w) name
      in if fault w OpRemove then (Some (Errno ''EIO''), w1)
         else (case lookup (fsroot w) p of
                 None \<Rightarrow> (Some (Errno ''ENOENT''), w1)
               | Some (DirN (e # es)) \<Rightarrow> (Some (Errno ''ENOTEMPTY''), w1)
               | Some n \<Rightarrow>
                   (case alter p (\<lambda>x. None) (fsroot w) of
                      None \<Rightarrow> (Some (Errno ''EBUSY''), w1)
                    | Some r \<Rightarrow> (None, w1\<lparr>fsroot := r\<rparr>))))"

definition rename_target_err :: "node \<Rightarrow> node option \<Rightarrow> err option" where
  "rename_target_err src tgt =
     (case (src, tgt) of
        (FileN s, Some (DirN es)) \<Rightarrow> Some (Errno ''EISDIR'')
      | (DirN ds, Some (FileN s)) \<Rightarrow> Some (Errno ''ENOTDIR'')
      | (DirN ds, Some (DirN (e # es))) \<Rightarrow> Some (Errno ''ENOTEMPTY'')
      | _ \<Rightarrow> None)"

definition os_Rename :: "string \<Rightarrow> string \<Rightarrow> world \<Rightarrow> err option \<times> world" where
  "os_Rename oldpath newpath w =
     (let w1 = emit (SysRename oldpath newpath) w;
          po = resolve (cwd w) oldpath;
          pn = resolve (cwd w) newpath
      in if fault w OpRename then (Some (Errno ''EIO''), w1)
         else (case lookup (fsroot w) po of
                 None \<Rightarrow> (Some (Errno ''ENOENT''), w1)
               | Some n \<Rightarrow>
                   if po = pn then (None, w1)
                   else if take (length po) pn = po then (Some (Errno ''EINVAL''), w1)
                   else (case rename_target_err n (lookup (fsroot w) pn) of
                           Some e \<Rightarrow> (Some e, w1)
                         | None \<Rightarrow>
                             (case alter po (\<lambda>x. None) (fsroot w) of
                                None \<Rightarrow> (Some (Errno ''EBUSY''), w1)
                              | Some r1 \<Rightarrow>
                                  (case alter pn (\<lambda>x. Some n) r1 of
                                     None \<Rightarrow> (Some (Errno ''ENOENT''), w1)
                                   | Some r2 \<Rightarrow> (None, w1\<lparr>fsroot := r2\<rparr>))))))"

definition new_fd :: "string list \<Rightarrow> oflag list \<Rightarrow> world \<Rightarrow> (err + nat) \<times> world" where
  "new_fd p flags w =
     (Inr (next_fd w),
      w\<lparr>fdtab := (fdtab w)(next_fd w \<mapsto> (p, flags)), next_fd := Suc (next_fd w)\<rparr>)"

text \<open>\<^verbatim>\<open>os.OpenFile(path, flags, 0644)\<close>; the permission bits are not modelled.\<close>

definition os_OpenFile :: "string \<Rightarrow> oflag list \<Rightarrow> world \<Rightarrow> (err + nat) \<times> world" where
  "os_OpenFile path flags w =
     (let w1 = emit (SysOpen path flags) w; p = resolve (cwd w) path
      in if fault w OpOpen then (Inl (Errno ''EACCES''), w1)
         else (case lookup (fsroot w) p of
                 Some (DirN es) \<Rightarrow> (Inl (Errno ''EISDIR''), w1)
               | Some (FileN s) \<Rightarrow> new_fd p flags w1
               | None \<Rightarrow>
                   if O_CREATE \<in> set flags then
                     (case alter p (\<lambda>x. Some (FileN [])) (fsroot w) of
                        None \<Rightarrow> (Inl (Errno ''ENOENT''), w1)
                      | Some r \<Rightarrow> new_fd p flags (w1\<lparr>fsroot := r\<rparr>))
                   else (Inl (Errno ''ENOENT''), w1)))"

text \<open>
  The methods of \<^verbatim>\<open>*os.File\<close>. A nil file is \<open>None\<close>: its methods return
  \<^verbatim>\<open>os.ErrInvalid\<close>. A descriptor that is not in the table has been closed.
\<close>

definition file_Sync :: "nat option \<Rightarrow> world \<Rightarrow> err option \<times> world" where
  "file_Sync f w =
     (case f of
        None \<Rightarrow> (Some (Errno ''invalid argument''), w)
      | Some fd \<Rightarrow>
          (let w1 = emit (SysSync fd) w
           in if fdtab w fd = None then (Some (Errno ''file already closed''), w1)
              else if fault w OpSync then (Some (Errno ''EIO''), w1)
              else (None, w1)))"

definition file_Close :: "nat option \<Rightarrow> world \<Rightarrow> err option \<times> world" where
  "file_Close f w =
     (case f of
        None \<Rightarrow> (Some (Errno ''invalid argument''), w)
      | Some fd \<Rightarrow>
          (let w1 = emit (SysClose fd) w
           in if fdtab w fd = None then (Some (Errno ''file already closed''), w1)
              else if fault w OpClose then (Some (Errno ''EIO''), w1\<lparr>fdtab := (fdtab w)(fd := None)\<rparr>)
              else (None, w1\<lparr>fdtab := (fdtab w)(fd := None)\<rparr>)))"

text \<open>Every file of the program is opened with \<^verbatim>\<open>O_APPEND\<close>: a write appends.\<close>

definition file_Write :: "nat \<Rightarrow> string \<Rightarrow> world \<Rightarrow> err option \<times> world" where
  "file_Write fd b w =
     (case fdtab w fd of
        None \<Rightarrow> (Some (Errno ''file already closed''), w)
      | Some (p, flags) \<Rightarrow>
          if fault w OpWrite then (Some (Errno ''EIO''), w)
          else if O_RDWR \<notin> set flags then (Some (Errno ''EBADF''), w)
          else (case lookup (fsroot w) p of
                  Some (FileN s) \<Rightarrow>
                    (case alter p (\<lambda>x. Some (FileN (s @ b))) (fsroot w) of
                       None \<Rightarrow> (None, w)
                     | Some r \<Rightarrow> (None, w\<lparr>fsroot := r\<rparr>))
                | _ \<Rightarrow> (None, w)))"

definition stdout_Write :: "string \<Rightarrow> world \<Rightarrow> err option \<times> world" where
  "stdout_Write b w =
     (if fault w OpStdout then (Some (Errno ''EPIPE''), w)
      else (None, w\<lparr>stdout := stdout w @ b\<rparr>))"

text \<open>\<^verbatim>\<open>fmt.Printf\<close> writes to the standard output and the program drops its result.\<close>

definition fmt_Printf :: "string \<Rightarrow> world \<Rightarrow> world" where
  "fmt_Printf s w = snd (stdout_Write s w)"

subsection \<open>Writers\<close>

datatype sink = Stdout | FileSink nat

definition sink_Write :: "sink \<Rightarrow> string \<Rightarrow> world \<Rightarrow> err option \<times> world" where
  "sink_Write s b w = (case s of Stdout \<Rightarrow> stdout_Write b w | FileSink fd \<Rightarrow> file_Write fd b w)"

text \<open>\<^verbatim>\<open>io.MultiWriter\<close>: each sink in turn, stopping at the first error.\<close>

fun multi_Write :: "sink list \<Rightarrow> string \<Rightarrow> world \<Rightarrow> err option \<times> world" where
  "multi_Write [] b w = (None, w)"
| "multi_Write (s # ss) b w =
     (case sink_Write s b w of
        (Some e, w1) \<Rightarrow> (Some e, w1)
      | (None, w1) \<Rightarrow> multi_Write ss b w1)"

text \<open>
  \<^verbatim>\<open>io.Copy\<close>: every chunk read is written at once; the copy stops at the first write
  error, and returns the read error when the stream ends with one.
\<close>

fun copy_chunks :: "sink list \<Rightarrow> string list \<Rightarrow> err option \<Rightarrow> world \<Rightarrow> err option \<times> world" where
  "copy_chunks ws [] rerr w = (rerr, w)"
| "copy_chunks ws (c # cs) rerr w =
     (if c = [] then copy_chunks ws cs rerr w
      else (case multi_Write ws c w of
              (Some e, w1) \<Rightarrow> (Some e, w1)
            | (None, w1) \<Rightarrow> copy_chunks ws cs rerr w1))"

definition io_Copy :: "sink list \<Rightarrow> body \<Rightarrow> world \<Rightarrow> err option \<times> world" where
  "io_Copy ws b w = copy_chunks ws (chunks b) (read_err b) w"

section \<open>The portal\<close>

text \<open>
  The struct \<^verbatim>\<open>Portal\<close>. Its HTTP client is the network above and its ticker is the list
  of polls \<open>Start\<close> is given. The writer is the list of sinks of its
  \<^verbatim>\<open>io.MultiWriter\<close>, as \<^verbatim>\<open>SetupWriter\<close> and \<^verbatim>\<open>RotateFile\<close> build it.
\<close>

record portal =
  URL :: string
  Tail :: int64
  Interval :: int64
  Dir :: string
  Lifetime :: int64
  ConsolePortal :: bool
  FilePortal :: bool
  offset :: int64
  filename :: string
  file' :: "nat option"
  writer :: "sink list"

definition New :: "string \<Rightarrow> int64 \<Rightarrow> int64 \<Rightarrow> portal" where
  "New u interval tail =
     \<lparr>URL = u, Tail = tail, Interval = interval, Dir = [], Lifetime = 0,
      ConsolePortal = True, FilePortal = False, offset = 0, filename = [],
      file' = None, writer = []\<rparr>"

definition LogName :: "portal \<Rightarrow> string" where
  "LogName p =
     (let fields = strings_Split (URL p) CHR ''/''
      in if length fields > 0 then last fields else [])"

definition Init :: "portal \<Rightarrow> err + portal" where
  "Init p =
     (let name = LogName p
      in if name = [] then Inl (InvalidUrl (URL p)) else Inr (p\<lparr>filename := name\<rparr>))"

definition LogSize :: "portal \<Rightarrow> net \<Rightarrow> world \<Rightarrow> (err + int64) \<times> world" where
  "LogSize p nt w =
     (case http_NewRequest nt ''HEAD'' (URL p) of
        Inl reqErr \<Rightarrow> (Inl (Wrapped ''create new request'' reqErr), w)
      | Inr req \<Rightarrow>
          (case client_Do nt req w of
             (Inl doErr, w1) \<Rightarrow> (Inl (Wrapped ''http head'' doErr), w1)
           | (Inr resp, w1) \<Rightarrow>
               if StatusCode resp \<noteq> 200 then (Inl (BadStatus (StatusCode resp)), w1)
               else (Inr (ContentLength resp), w1)))"

definition FetchIncrContent :: "portal \<Rightarrow> net \<Rightarrow> int64 \<Rightarrow> int64 \<Rightarrow> world \<Rightarrow> err option \<times> world" where
  "FetchIncrContent p nt start end' w =
     (case http_NewRequest nt ''GET'' (URL p) of
        Inl reqErr \<Rightarrow> (Some (Wrapped ''create new request'' reqErr), w)
      | Inr req0 \<Rightarrow>
          (let req = req0\<lparr>rheader :=
                 header_Set (rheader req0) ''Range''
                   (''bytes='' @ fmt_d start @ ''-'' @ fmt_d (end' - 1))\<rparr>
           in case client_Do nt req w of
                (Inl doErr, w1) \<Rightarrow> (Some (Wrapped ''http get'' doErr), w1)
              | (Inr resp, w1) \<Rightarrow>
                  if StatusCode resp \<noteq> 206 then (Some (BadStatus (StatusCode resp)), w1)
                  else (case io_Copy (writer p) (Body resp) w1 of
                          (Some e, w2) \<Rightarrow> (Some (Wrapped ''copy response body'' e), w2)
                        | (None, w2) \<Rightarrow> (None, w2))))"

definition initialFetch :: "portal \<Rightarrow> net \<Rightarrow> world \<Rightarrow> (err + int64) \<times> world" where
  "initialFetch p nt w =
     (case LogSize p nt w of
        (Inl getErr, w1) \<Rightarrow> (Inl (WrappedLn ''get log size'' getErr), w1)
      | (Inr currSize, w1) \<Rightarrow>
          if currSize = 0 then (Inr 0, w1)
          else if currSize <s Tail p then (Inr 0, w1)
          else (let start = currSize - Tail p
                in case FetchIncrContent p nt start currSize w1 of
                     (Some e, w2) \<Rightarrow> (Inl e, w2)
                   | (None, w2) \<Rightarrow> (Inr currSize, w2)))"

text \<open>The name \<^verbatim>\<open>RotateFile\<close> gives the archive, from the live name and the time string.\<close>

definition archive_prefix :: "string \<Rightarrow> string" where
  "archive_prefix name =
     (let fields = strings_Split name CHR ''.''
      in if length fields = 2 then fields ! 0 else name)"

definition archivedFilename :: "string \<Rightarrow> string \<Rightarrow> string" where
  "archivedFilename name timeStr = archive_prefix name @ ''-'' @ timeStr @ ''.log''"

definition rotate_flags :: "oflag list" where
  "rotate_flags = [O_CREATE, O_APPEND, O_RDWR]"

definition RotateFile :: "portal \<Rightarrow> world \<Rightarrow> err option \<times> portal \<times> world" where
  "RotateFile p w0 =
     (let w = emit RotateCalled w0
      in if \<not> FilePortal p then (None, p, w)
         else (case file_Sync (file' p) w of
                 (Some e, w1) \<Rightarrow> (Some (Wrapped ''sync file'' e), p, w1)
               | (None, w1) \<Rightarrow>
           (case file_Close (file' p) w1 of
              (Some e, w2) \<Rightarrow> (Some (Wrapped ''close file'' e), p, w2)
            | (None, w2) \<Rightarrow>
           (let path = filepath_Join (Dir p) (filename p);
                timeStr = time_Format (clock w2 location);
                archivedPath = filepath_Join (Dir p) (archivedFilename (filename p) timeStr)
            in case os_Rename path archivedPath w2 of
                 (Some e, w3) \<Rightarrow> (Some (Wrapped ''rename file'' e), p, w3)
               | (None, w3) \<Rightarrow>
           (case os_OpenFile path rotate_flags w3 of
              (Inl e, w4) \<Rightarrow> (Some (Wrapped ''open new file'' e), p, w4)
            | (Inr newFile, w4) \<Rightarrow>
                (None,
                 p\<lparr>file' := Some newFile,
                   writer := [FileSink newFile] @ (if ConsolePortal p then [Stdout] else [])\<rparr>,
                 w4))))))"

text \<open>One turn of the loop of \<^verbatim>\<open>Start\<close>: the body of \<^verbatim>\<open>for range p.ticker.C\<close>.\<close>

definition tick :: "portal \<Rightarrow> net \<Rightarrow> world \<Rightarrow> portal \<times> world" where
  "tick p nt w =
     (case LogSize p nt w of
        (Inl getErr, w1) \<Rightarrow> (p, fmt_Printf (''get log size: '' @ err_msg getErr @ [CHR 0x0A]) w1)
      | (Inr currSize, w1) \<Rightarrow>
          if offset p <s currSize then
            (case FetchIncrContent p nt (offset p) currSize w1 of
               (Some e, w2) \<Rightarrow>
                 (p, fmt_Printf (''fetch incremental content: '' @ err_msg e @ [CHR 0x0A]) w2)
             | (None, w2) \<Rightarrow> (p\<lparr>offset := currSize\<rparr>, w2))
          else if currSize <s offset p then
            (case RotateFile p w1 of
               (Some e, p1, w2) \<Rightarrow>
                 (p1\<lparr>offset := 0\<rparr>, fmt_Printf (''rotate file: '' @ err_msg e @ [CHR 0x0A]) w2)
             | (None, p1, w2) \<Rightarrow> (p1\<lparr>offset := 0\<rparr>, w2))
          else (p, w1))"

text \<open>The loop, over the polls that fire: each comes with the network as it is then.\<close>

fun run_ticks :: "portal \<Rightarrow> net list \<Rightarrow> world \<Rightarrow> portal \<times> world" where
  "run_ticks p [] w = (p, w)"
| "run_ticks p (nt # nts) w = (case tick p nt w of (p1, w1) \<Rightarrow> run_ticks p1 nts w1)"

text \<open>
  \<^verbatim>\<open>Start\<close>, without the sweeper it spawns (a goroutine of its own, see \<open>Clean\<close>): the
  banner, the initial fetch, whose size goes to the local variable \<^verbatim>\<open>currSize\<close>, then
  the loop.
\<close>

definition Start :: "portal \<Rightarrow> net \<Rightarrow> net list \<Rightarrow> world \<Rightarrow> portal \<times> world" where
  "Start p nt0 nts w =
     (let wa = fmt_Printf (''[Portal]: fetching {'' @ URL p @ ''}...'' @ [CHR 0x0A]) w
      in case initialFetch p nt0 wa of
           (Inl getErr, w1) \<Rightarrow>
             run_ticks p nts (fmt_Printf (''initial fetch: '' @ err_msg getErr @ [CHR 0x0A]) w1)
         | (Inr currSize, w1) \<Rightarrow> run_ticks p nts w1)"

section \<open>The sweeper\<close>

















section \<open>Auxiliary notions for the statements\<close>


text \<open>How often \<^verbatim>\<open>RotateFile\<close> has been entered.\<close>

definition rotations :: "world \<Rightarrow> nat" where
  "rotations w = count_list (trace w) RotateCalled"

text \<open>The request \<^verbatim>\<open>FetchIncrContent(start, end)\<close> sends.\<close>

definition range_request :: "portal \<Rightarrow> int64 \<Rightarrow> int64 \<Rightarrow> request" where
  "range_request p start end' =
     \<lparr>rmethod = ''GET'', rurl = URL p,
      rheader = [(''Range'', ''bytes='' @ fmt_d start @ ''-'' @ fmt_d (end' - 1))]\<rparr>"











section \<open>Example sessions\<close>

text \<open>
  A portal mirroring \<^verbatim>\<open>http://h/access.log\<close> into \<^verbatim>\<open>/logs\<close>, run from the working
  directory \<^verbatim>\<open>/work\<close>, on 2023-11-15 at 06:13:20.007 in the reference time zone.
\<close>

definition ex_time :: gotime where
  "ex_time = \<lparr>unixMilli = 1700000000007, year = 2023, month = 11, day = 15, hour = 6,
               minute = 13, second = 20, nanosecond = 7000000\<rparr>"

definition ex_world :: world where
  "ex_world =
     \<lparr>fsroot = DirN [(''logs'', DirN [(''access.log'', FileN ''old'')]), (''work'', DirN [])],
      cwd = [''work''],
      fdtab = (\<lambda>fd. if fd = 3 then Some ([''logs'', ''access.log''], rotate_flags) else None),
      next_fd = 4, stdout = [], clock = (\<lambda>l. ex_time), fault = (\<lambda>x. False), trace = []\<rparr>"

definition ex_portal :: portal where
  "ex_portal =
     \<lparr>URL = ''http://h/access.log'', Tail = 10, Interval = 2, Dir = ''/logs'', Lifetime = 3,
      ConsolePortal = True, FilePortal = True, offset = 0, filename = ''access.log'',
      file' = Some 3, writer = [Stdout, FileSink 3]\<rparr>"

text \<open>The remote file has 100 bytes; a ranged read is answered with 10 bytes.\<close>

definition ex_net :: net where
  "ex_net =
     \<lparr>url_err = (\<lambda>u. None),
      round_trip = (\<lambda>r.
        if rmethod r = ''HEAD''
        then Inr \<lparr>StatusCode = 200, declared_length = Some 100,
                  Body = \<lparr>chunks = [], read_err = None\<rparr>\<rparr>
        else Inr \<lparr>StatusCode = 206, declared_length = Some 10,
                  Body = \<lparr>chunks = [''0123456789''], read_err = None\<rparr>\<rparr>)\<rparr>"

text \<open>The remote file has shrunk to 40 bytes.\<close>

definition ex_net_shrunk :: net where
  "ex_net_shrunk =
     \<lparr>url_err = (\<lambda>u. None),
      round_trip = (\<lambda>r.
        Inr \<lparr>StatusCode = 200, declared_length = Some 40,
             Body = \<lparr>chunks = [], read_err = None\<rparr>\<rparr>)\<rparr>"


text \<open>The server is unreachable.\<close>

definition ex_net_down :: net where
  "ex_net_down =
     \<lparr>url_err = (\<lambda>u. None), round_trip = (\<lambda>r. Inl (Errno ''connection refused''))\<rparr>"

text \<open>The server ignores the range and answers 200 with the whole file.\<close>

definition ex_net_norange :: net where
  "ex_net_norange =
     \<lparr>url_err = (\<lambda>u. None),
      round_trip = (\<lambda>r.
        Inr \<lparr>StatusCode = 200, declared_length = Some 100,
             Body = \<lparr>chunks = [''whole file''], read_err = None\<rparr>\<rparr>)\<rparr>"

text \<open>The same world after somebody has removed the live file.\<close>

definition ex_world_gone :: world where
  "ex_world_gone = ex_world\<lparr>fsroot := DirN [(''logs'', DirN []), (''work'', DirN [])]\<rparr>"




section \<open>Lemmas\<close>

lemma digits_0: "digits 0 = ''0''" by (simp add: digits.simps)
lemma digits_1: "digits (Suc 0) = ''1''" by (simp add: digits.simps)
lemma digits_numeral: "digits (numeral k) =
   (if (numeral k :: nat) < 10 then [''0123456789'' ! numeral k]
    else digits (numeral k div 10) @ [''0123456789'' ! (numeral k mod 10)])"
  by (rule digits.simps)

lemmas digits_eval = digits_0 digits_1 digits_numeral





lemma length_digits_pos: "0 < length (digits n)"
  by (subst digits.simps) simp




lemma replicate_numeral: "replicate (numeral k) x = x # replicate (pred_numeral k) x"
  by (simp add: numeral_eq_Suc)







lemma file_Sync_frame:
  "file_Sync f w = (r, w1) \<Longrightarrow>
     clock w1 = clock w \<and> cwd w1 = cwd w \<and> fsroot w1 = fsroot w \<and> fault w1 = fault w \<and>
     fdtab w1 = fdtab w \<and> stdout w1 = stdout w \<and> next_fd w1 = next_fd w \<and>
     trace w1 = trace w @ (case f of None \<Rightarrow> [] | Some fd \<Rightarrow> [SysSync fd])"
  by (auto simp: file_Sync_def emit_def Let_def split: option.splits if_splits)

lemma file_Close_frame:
  "file_Close f w = (r, w1) \<Longrightarrow>
     clock w1 = clock w \<and> cwd w1 = cwd w \<and> fsroot w1 = fsroot w \<and> fault w1 = fault w \<and>
     stdout w1 = stdout w \<and> next_fd w1 = next_fd w \<and>
     trace w1 = trace w @ (case f of None \<Rightarrow> [] | Some fd \<Rightarrow> [SysClose fd])"
  by (auto simp: file_Close_def emit_def Let_def split: option.splits if_splits)

lemma os_Rename_frame:
  "os_Rename a b w = (r, w1) \<Longrightarrow>
     clock w1 = clock w \<and> cwd w1 = cwd w \<and> fault w1 = fault w \<and> fdtab w1 = fdtab w \<and>
     stdout w1 = stdout w \<and> next_fd w1 = next_fd w \<and> trace w1 = trace w @ [SysRename a b]"
  by (auto simp: os_Rename_def emit_def Let_def split: option.splits if_splits)

lemma os_OpenFile_frame:
  "os_OpenFile a fl w = (r, w1) \<Longrightarrow>
     clock w1 = clock w \<and> cwd w1 = cwd w \<and> fault w1 = fault w \<and>
     stdout w1 = stdout w \<and> trace w1 = trace w @ [SysOpen a fl]"
  by (auto simp: os_OpenFile_def new_fd_def emit_def Let_def split: option.splits if_splits node.splits)




lemma ex_tf: "time_Format ex_time = ''2023-11-15T06-13-20.007''"
  by (simp add: time_Format_def ex_time_def appendInt_def digits_eval replicate_numeral)

lemma ex_res1: "resolve [''work''] ''/logs/access.log'' = [''logs'', ''access.log'']"
  by (simp add: resolve_def norm_step_def)

lemma ex_res2: "resolve [''work''] ''/logs/access-2023-11-15T06-13-20.007.log'' = [''logs'', ''access-2023-11-15T06-13-20.007.log'']"
  by (simp add: resolve_def norm_step_def)

lemma ex_an: "archivedFilename ''access.log'' ts = ''access-'' @ ts @ ''.log''"
  by (simp add: archivedFilename_def archive_prefix_def)

lemmas ex_rotate_eval = RotateFile_def ex_portal_def ex_world_def emit_def file_Sync_def file_Close_def
     rotate_flags_def filepath_Join_def os_Rename_def os_OpenFile_def ex_tf ex_res1 ex_res2 ex_an
     rename_target_err_def new_fd_def Let_def

lemma ex_rot_fst: "fst (RotateFile ex_portal ex_world) = None"
  by (simp add: ex_rotate_eval)

lemma ex_rot_trace: "trace (snd (snd (RotateFile ex_portal ex_world))) =
   [RotateCalled, SysSync 3, SysClose 3,
    SysRename ''/logs/access.log'' ''/logs/access-2023-11-15T06-13-20.007.log'',
    SysOpen ''/logs/access.log'' [O_CREATE, O_APPEND, O_RDWR]]"
  by (simp add: ex_rotate_eval)



lemma rotations_emit:
  "rotations (emit e w) = rotations w + (if e = RotateCalled then 1 else 0)"
  by (simp add: rotations_def emit_def)

lemma stdout_Write_frame:
  "stdout_Write b w = (r, w1) \<Longrightarrow>
     trace w1 = trace w \<and> fsroot w1 = fsroot w \<and> fdtab w1 = fdtab w \<and> clock w1 = clock w \<and>
     cwd w1 = cwd w \<and> fault w1 = fault w \<and> next_fd w1 = next_fd w"
  by (auto simp: stdout_Write_def split: if_splits)

lemma fmt_Printf_frame:
  "trace (fmt_Printf s w) = trace w \<and> fsroot (fmt_Printf s w) = fsroot w \<and>
   fdtab (fmt_Printf s w) = fdtab w"
  by (simp add: fmt_Printf_def stdout_Write_def)

lemma file_Write_frame:
  "file_Write fd b w = (r, w1) \<Longrightarrow>
     trace w1 = trace w \<and> stdout w1 = stdout w \<and> fdtab w1 = fdtab w \<and> clock w1 = clock w \<and>
     cwd w1 = cwd w \<and> fault w1 = fault w \<and> next_fd w1 = next_fd w"
  by (auto simp: file_Write_def split: if_splits option.splits node.splits)

lemma sink_Write_trace: "sink_Write s b w = (r, w1) \<Longrightarrow> trace w1 = trace w"
  by (auto simp: sink_Write_def split: sink.splits dest: stdout_Write_frame file_Write_frame)

lemma multi_Write_trace: "multi_Write ss b w = (r, w1) \<Longrightarrow> trace w1 = trace w"
proof (induction ss arbitrary: w)
  case Nil
  then show ?case by simp
next
  case (Cons s ss)
  then show ?case
    by (auto split: prod.splits option.splits dest: sink_Write_trace)
qed

lemma copy_chunks_trace: "copy_chunks ws cs rerr w = (r, w1) \<Longrightarrow> trace w1 = trace w"
proof (induction cs arbitrary: w)
  case Nil
  then show ?case by simp
next
  case (Cons c cs)
  then show ?case
    by (auto split: if_splits prod.splits option.splits dest: multi_Write_trace)
qed

lemma io_Copy_trace: "io_Copy ws b w = (r, w1) \<Longrightarrow> trace w1 = trace w"
  by (simp add: io_Copy_def copy_chunks_trace)

lemma LogSize_world:
  "LogSize p nt w = (r, w1) \<Longrightarrow>
     w1 = w \<or> w1 = emit (NetDo \<lparr>rmethod = ''HEAD'', rurl = URL p, rheader = []\<rparr>) w"
  by (auto simp: LogSize_def http_NewRequest_def client_Do_def
           split: option.splits sum.splits if_splits)

lemma LogSize_rotations: "LogSize p nt w = (r, w1) \<Longrightarrow> rotations w1 = rotations w"
  by (auto dest!: LogSize_world simp: rotations_emit)

lemma FetchIncrContent_trace:
  "FetchIncrContent p nt start end' w = (r, w1) \<Longrightarrow>
     trace w1 = trace w @
       (case url_err nt (URL p) of Some e \<Rightarrow> [] | None \<Rightarrow> [NetDo (range_request p start end')])"
  by (auto simp: FetchIncrContent_def http_NewRequest_def client_Do_def header_Set_def Let_def
                 emit_def range_request_def
           split: option.splits sum.splits if_splits prod.splits dest!: io_Copy_trace)

lemma FetchIncrContent_rotations:
  "FetchIncrContent p nt start end' w = (r, w1) \<Longrightarrow> rotations w1 = rotations w"
  by (auto dest!: FetchIncrContent_trace simp: rotations_def split: option.splits)

lemma RotateFile_rotations:
  "RotateFile p w = (r, p1, w1) \<Longrightarrow> rotations w1 = Suc (rotations w)"
  by (auto simp: RotateFile_def Let_def emit_def rotations_def
           split: if_splits prod.splits option.splits sum.splits
           dest!: file_Sync_frame file_Close_frame os_Rename_frame os_OpenFile_frame)

lemma rotations_Printf: "rotations (fmt_Printf s w) = rotations w"
  by (simp add: rotations_def fmt_Printf_frame)

lemma tick_step:
  assumes t: "tick p nt w = (p', w')"
  shows "(case LogSize p nt w of
        (Inl e, w1) \<Rightarrow> offset p' = offset p \<and> rotations w' = rotations w
      | (Inr S, w1) \<Rightarrow>
          if S <s offset p
          then offset p' = 0 \<and> rotations w' = Suc (rotations w) \<and>
               p' = (fst (snd (RotateFile p w1)))\<lparr>offset := 0\<rparr>
          else rotations w' = rotations w \<and>
               (offset p' = offset p \<or> (offset p <s S \<and> offset p' = S)))"
proof (cases "LogSize p nt w")
  case (Pair res w1)
  note ls = LogSize_rotations [OF Pair]
  show ?thesis
  proof (cases res)
    case (Inl e)
    with Pair t ls show ?thesis by (auto simp: tick_def rotations_Printf)
  next
    case (Inr S)
    show ?thesis
    proof (cases "offset p <s S")
      case True
      then have ns: "\<not> S <s offset p" by (simp add: word_sless_alt)
      obtain r w2 where f: "FetchIncrContent p nt (offset p) S w1 = (r, w2)"
        by (cases "FetchIncrContent p nt (offset p) S w1")
      note fr = FetchIncrContent_rotations [OF f]
      from Pair Inr True ns f t ls fr show ?thesis
        by (cases r) (auto simp: tick_def rotations_Printf)
    next
      case False
      show ?thesis
      proof (cases "S <s offset p")
        case True
        obtain r p1 w2 where rf: "RotateFile p w1 = (r, p1, w2)"
          by (cases "RotateFile p w1") auto
        note rr = RotateFile_rotations [OF rf]
        from Pair Inr True False rf t ls rr show ?thesis
          by (cases r) (auto simp: tick_def rotations_Printf)
      next
        case nlt: False
        from Pair Inr False nlt t ls show ?thesis by (auto simp: tick_def)
      qed
    qed
  qed
qed


lemma tick_rotations_mono: "tick p nt w = (p', w') \<Longrightarrow> rotations w \<le> rotations w'"
  using tick_step [of p nt w p' w']
  by (auto split: prod.splits sum.splits if_splits)

lemma tick_same_generation:
  "tick p nt w = (p', w') \<Longrightarrow> rotations w' = rotations w \<Longrightarrow> offset p \<le>s offset p'"
  using tick_step [of p nt w p' w']
  by (auto split: prod.splits sum.splits if_splits simp: word_sle_eq word_sless_alt)

lemma run_ticks_rotations_mono:
  "run_ticks p nts w = (p', w') \<Longrightarrow> rotations w \<le> rotations w'"
proof (induction nts arbitrary: p w)
  case Nil
  then show ?case by simp
next
  case (Cons nt nts)
  obtain p1 w1 where t: "tick p nt w = (p1, w1)" by (cases "tick p nt w")
  with Cons.prems have "run_ticks p1 nts w1 = (p', w')" by simp
  then have "rotations w1 \<le> rotations w'" by (rule Cons.IH)
  with tick_rotations_mono [OF t] show ?case by simp
qed

lemma run_ticks_same_generation:
  "run_ticks p nts w = (p', w') \<Longrightarrow> rotations w' = rotations w \<Longrightarrow> offset p \<le>s offset p'"
proof (induction nts arbitrary: p w)
  case Nil
  then show ?case by (simp add: word_sle_eq)
next
  case (Cons nt nts)
  obtain p1 w1 where t: "tick p nt w = (p1, w1)" by (cases "tick p nt w")
  with Cons.prems have r: "run_ticks p1 nts w1 = (p', w')" by simp
  from tick_rotations_mono [OF t] run_ticks_rotations_mono [OF r] Cons.prems(2)
  have eq: "rotations w1 = rotations w" "rotations w' = rotations w1" by simp_all
  from tick_same_generation [OF t eq(1)] Cons.IH [OF r eq(2)]
  show ?case by (simp add: word_sle_eq)
qed

lemma tick_fetch_request:
  assumes "LogSize p nt w = (Inr S, w1)" and "offset p <s S" and "url_err nt (URL p) = None"
  shows "trace (snd (tick p nt w)) = trace w1 @ [NetDo (range_request p (offset p) S)]"
proof -
  obtain r w2 where f: "FetchIncrContent p nt (offset p) S w1 = (r, w2)"
    by (cases "FetchIncrContent p nt (offset p) S w1")
  from FetchIncrContent_trace [OF f] assms(3)
  have "trace w2 = trace w1 @ [NetDo (range_request p (offset p) S)]" by simp
  with assms f show ?thesis
    by (cases r) (simp_all add: tick_def fmt_Printf_frame)
qed

lemma tick_failed:
  assumes t: "tick p nt w = (p', w')"
    and fail: "(\<exists>e w1. LogSize p nt w = (Inl e, w1)) \<or>
       (\<exists>S w1 e w2. LogSize p nt w = (Inr S, w1) \<and> offset p <s S \<and>
           FetchIncrContent p nt (offset p) S w1 = (Some e, w2))"
  shows "p' = p \<and> rotations w' = rotations w"
  using fail
proof
  assume "\<exists>e w1. LogSize p nt w = (Inl e, w1)"
  then obtain e w1 where l: "LogSize p nt w = (Inl e, w1)" by blast
  with t LogSize_rotations [OF l] show ?thesis by (auto simp: tick_def rotations_Printf)
next
  assume "\<exists>S w1 e w2. LogSize p nt w = (Inr S, w1) \<and> offset p <s S \<and>
           FetchIncrContent p nt (offset p) S w1 = (Some e, w2)"
  then obtain S w1 e w2 where l: "LogSize p nt w = (Inr S, w1)" and lt: "offset p <s S"
    and f: "FetchIncrContent p nt (offset p) S w1 = (Some e, w2)" by blast
  with t LogSize_rotations [OF l] FetchIncrContent_rotations [OF f] show ?thesis
    by (auto simp: tick_def rotations_Printf)
qed


lemma Start_no_ticks_offset: "offset (fst (Start p nt0 [] w)) = offset p"
  by (simp add: Start_def Let_def split: prod.splits sum.splits)

lemmas ex_net_eval = LogSize_def FetchIncrContent_def http_NewRequest_def client_Do_def
  ContentLength_def header_Set_def emit_def Let_def io_Copy_def sink_Write_def stdout_Write_def
  file_Write_def fmt_Printf_def fmt_d_def fmt_int_def digits_eval rotate_flags_def
  word_sless_alt word_sle_eq

lemma ex_rotations0: "rotations ex_world = 0"
  by (simp add: rotations_def ex_world_def)

lemma ex_tick_shrunk:
  "offset (fst (tick (ex_portal\<lparr>offset := 100\<rparr>) ex_net_shrunk ex_world)) = 0 \<and>
   rotations (snd (tick (ex_portal\<lparr>offset := 100\<rparr>) ex_net_shrunk ex_world)) = 1"
  by (simp add: tick_def ex_net_shrunk_def ex_net_eval ex_rotate_eval rotations_def)

lemma ex_logsize_shrunk:
  "fst (LogSize (ex_portal\<lparr>offset := 100\<rparr>) ex_net_shrunk ex_world) = Inr 40"
  by (simp add: ex_net_shrunk_def ex_net_eval ex_portal_def)

lemma ex_run_grow:
  "offset (fst (run_ticks ex_portal [ex_net] ex_world)) = 100 \<and>
   rotations (snd (run_ticks ex_portal [ex_net] ex_world)) = 0"
  by (simp add: tick_def ex_net_def ex_net_eval ex_portal_def ex_world_def rotations_def)

lemma ex_start:
  "offset (fst (Start ex_portal ex_net [] ex_world)) = 0 \<and>
   trace (snd (Start ex_portal ex_net [] ex_world)) =
     [NetDo \<lparr>rmethod = ''HEAD'', rurl = ''http://h/access.log'', rheader = []\<rparr>,
      NetDo \<lparr>rmethod = ''GET'', rurl = ''http://h/access.log'',
             rheader = [(''Range'', ''bytes=90-99'')]\<rparr>]"
  by (simp add: Start_def initialFetch_def ex_net_def ex_net_eval ex_portal_def ex_world_def)

lemma ex_start_tick:
  "trace (snd (Start ex_portal ex_net [ex_net] ex_world)) =
     [NetDo \<lparr>rmethod = ''HEAD'', rurl = ''http://h/access.log'', rheader = []\<rparr>,
      NetDo \<lparr>rmethod = ''GET'', rurl = ''http://h/access.log'',
             rheader = [(''Range'', ''bytes=90-99'')]\<rparr>,
      NetDo \<lparr>rmethod = ''HEAD'', rurl = ''http://h/access.log'', rheader = []\<rparr>,
      NetDo \<lparr>rmethod = ''GET'', rurl = ''http://h/access.log'',
             rheader = [(''Range'', ''bytes=0-99'')]\<rparr>]"
  by (simp add: Start_def initialFetch_def tick_def ex_net_def ex_net_eval ex_portal_def ex_world_def)

lemma ex_logsize_down:
  "LogSize ex_portal ex_net_down ex_world =
     (Inl (Wrapped ''http head'' (Errno ''connection refused'')),
      emit (NetDo \<lparr>rmethod = ''HEAD'', rurl = ''http://h/access.log'', rheader = []\<rparr>) ex_world)"
  by (simp add: LogSize_def http_NewRequest_def client_Do_def ex_net_down_def ex_portal_def)

lemma ex_fetch_norange:
  "LogSize ex_portal ex_net_norange ex_world =
     (Inr 100, emit (NetDo \<lparr>rmethod = ''HEAD'', rurl = ''http://h/access.log'', rheader = []\<rparr>) ex_world) \<and>
   FetchIncrContent ex_portal ex_net_norange 0 100
       (emit (NetDo \<lparr>rmethod = ''HEAD'', rurl = ''http://h/access.log'', rheader = []\<rparr>) ex_world) =
     (Some (BadStatus 200),
      emit (NetDo (range_request ex_portal 0 100))
        (emit (NetDo \<lparr>rmethod = ''HEAD'', rurl = ''http://h/access.log'', rheader = []\<rparr>) ex_world))"
  by (simp add: LogSize_def FetchIncrContent_def http_NewRequest_def client_Do_def
      ex_net_norange_def ex_portal_def ContentLength_def header_Set_def range_request_def Let_def)

lemma ex_fetch_ok:
  "fst (FetchIncrContent ex_portal ex_net 90 100 ex_world) = None \<and>
   trace (snd (FetchIncrContent ex_portal ex_net 90 100 ex_world)) =
     [NetDo \<lparr>rmethod = ''GET'', rurl = ''http://h/access.log'',
             rheader = [(''Range'', ''bytes=90-99'')]\<rparr>] \<and>
   stdout (snd (FetchIncrContent ex_portal ex_net 90 100 ex_world)) = ''0123456789''"
  by (simp add: ex_net_def ex_net_eval ex_portal_def ex_world_def)

lemma map_of_set_entry_None: "map_of (set_entry c None es) c = None"
  by (induction es) auto

lemma map_of_replace:
  "map_of es c \<noteq> None \<Longrightarrow> map_of (map (\<lambda>kv. if fst kv = c then (c, n) else kv) es) c = Some n"
  by (induction es) auto

lemma map_of_set_entry_Some: "map_of (set_entry c (Some n) es) c = Some n"
  by (simp add: map_of_replace map_add_def)


lemma lookup_single: "lookup (DirN es) [c] = map_of es c"
  by (cases "map_of es c") simp_all

lemma alter_lookup: "alter p f n = Some r \<Longrightarrow> lookup r p = f (lookup n p)"
proof (induction p arbitrary: n r)
  case Nil
  then show ?case by simp
next
  case (Cons c cs)
  show ?case
  proof (cases n)
    case (FileN s)
    with Cons.prems show ?thesis by simp
  next
    case (DirN es)
    show ?thesis
    proof (cases cs)
      case Nil
      with Cons.prems DirN have "r = DirN (set_entry c (f (map_of es c)) es)" by simp
      moreover have "map_of (set_entry c (f (map_of es c)) es) c = f (map_of es c)"
        by (cases "f (map_of es c)") (simp_all only: map_of_set_entry_None map_of_set_entry_Some)
      ultimately show ?thesis using Nil DirN by (simp only: lookup_single)
    next
      case (Cons d ds)
      with Cons.prems DirN obtain sub where sub: "map_of es c = Some sub"
        by (cases "map_of es c") simp_all
      with Cons.prems DirN Cons obtain sub' where sub': "alter cs f sub = Some sub'"
        and r: "r = DirN (set_entry c (Some sub') es)"
        by (cases "alter cs f sub") simp_all
      from Cons.IH [OF sub'] have "lookup sub' cs = f (lookup sub cs)" .
      with r sub DirN show ?thesis by (simp add: map_of_set_entry_Some del: set_entry.simps)
    qed
  qed
qed

lemma os_OpenFile_ok:
  assumes "os_OpenFile path flags w = (Inr fd, w1)"
  shows "fd = next_fd w \<and> fdtab w1 fd = Some (resolve (cwd w) path, flags) \<and>
         (\<exists>s. lookup (fsroot w1) (resolve (cwd w) path) = Some (FileN s))"
  using assms
  by (auto simp: os_OpenFile_def new_fd_def emit_def Let_def
           split: if_splits option.splits node.splits dest: alter_lookup)

lemma os_OpenFile_err:
  "os_OpenFile path flags w = (Inl e, w1) \<Longrightarrow> fdtab w1 = fdtab w \<and> fsroot w1 = fsroot w"
  by (auto simp: os_OpenFile_def new_fd_def emit_def Let_def
           split: if_splits option.splits node.splits)

lemma file_Close_ok:
  "file_Close f w = (None, w1) \<Longrightarrow> (\<forall>fd. f = Some fd \<longrightarrow> fdtab w1 fd = None) \<and> f \<noteq> None"
  by (auto simp: file_Close_def emit_def Let_def split: option.splits if_splits)

lemma RotateFile_ok:
  assumes fp: "FilePortal p" and rot: "RotateFile p w = (None, p', w')"
  shows "file' p' = Some (next_fd w) \<and>
     fdtab w' (next_fd w) =
       Some (resolve (cwd w) (filepath_Join (Dir p) (filename p)), [O_CREATE, O_APPEND, O_RDWR]) \<and>
     (\<exists>s. lookup (fsroot w') (resolve (cwd w) (filepath_Join (Dir p) (filename p))) = Some (FileN s)) \<and>
     writer p' = FileSink (next_fd w) # (if ConsolePortal p then [Stdout] else []) \<and>
     last (trace w') = SysOpen (filepath_Join (Dir p) (filename p)) [O_CREATE, O_APPEND, O_RDWR]"
proof -
  let ?w = "emit RotateCalled w"
  let ?path = "filepath_Join (Dir p) (filename p)"
  obtain r1 w1 where s: "file_Sync (file' p) ?w = (r1, w1)" by (cases "file_Sync (file' p) ?w")
  with fp rot have r1: "r1 = None" by (cases r1) (auto simp: RotateFile_def Let_def)
  obtain r2 w2 where c: "file_Close (file' p) w1 = (r2, w2)" by (cases "file_Close (file' p) w1")
  with fp rot s r1 have r2: "r2 = None" by (cases r2) (auto simp: RotateFile_def Let_def)
  let ?apath = "filepath_Join (Dir p) (archivedFilename (filename p) (time_Format (clock w2 location)))"
  obtain r3 w3 where rn: "os_Rename ?path ?apath w2 = (r3, w3)" by (cases "os_Rename ?path ?apath w2")
  with fp rot s r1 c r2 have r3: "r3 = None" by (cases r3) (auto simp: RotateFile_def Let_def)
  obtain r4 w4 where op: "os_OpenFile ?path rotate_flags w3 = (r4, w4)"
    by (cases "os_OpenFile ?path rotate_flags w3")
  with fp rot s r1 c r2 rn r3 obtain fd where r4: "r4 = Inr fd"
    by (cases r4) (auto simp: RotateFile_def Let_def)
  from fp rot s r1 c r2 rn r3 op r4
  have res: "p' = p\<lparr>file' := Some fd, writer := [FileSink fd] @ (if ConsolePortal p then [Stdout] else [])\<rparr>"
    "w' = w4"
    by (auto simp: RotateFile_def Let_def)
  note f1 = file_Sync_frame [OF s] and f2 = file_Close_frame [OF c] and f3 = os_Rename_frame [OF rn]
    and f4 = os_OpenFile_frame [OF op]
  have nf: "next_fd w3 = next_fd w" and cw: "cwd w3 = cwd w"
    using f1 f2 f3 by (simp_all add: emit_def)
  from os_OpenFile_ok [OF op [unfolded r4]] nf cw res f4 show ?thesis
    by (auto simp: rotate_flags_def)
qed

lemma RotateFile_err:
  assumes "RotateFile p w = (Some e, p', w')"
  shows "p' = p"
  using assms
  by (auto simp: RotateFile_def Let_def split: if_splits prod.splits option.splits sum.splits)

lemma RotateFile_rename_err:
  assumes rot: "RotateFile p w = (Some (Wrapped ''rename file'' e), p', w')"
  shows "(\<forall>fd. file' p = Some fd \<longrightarrow> fdtab w' fd = None) \<and>
         fsroot w' = fsroot w \<and>
         last (trace w') = SysRename (filepath_Join (Dir p) (filename p))
            (filepath_Join (Dir p) (archivedFilename (filename p) (time_Format (clock w location))))"
proof -
  let ?w = "emit RotateCalled w"
  let ?path = "filepath_Join (Dir p) (filename p)"
  from rot have fp: "FilePortal p" by (auto simp: RotateFile_def Let_def split: if_splits)
  obtain r1 w1 where s: "file_Sync (file' p) ?w = (r1, w1)" by (cases "file_Sync (file' p) ?w")
  with fp rot have r1: "r1 = None" by (cases r1) (auto simp: RotateFile_def Let_def)
  obtain r2 w2 where c: "file_Close (file' p) w1 = (r2, w2)" by (cases "file_Close (file' p) w1")
  with fp rot s r1 have r2: "r2 = None" by (cases r2) (auto simp: RotateFile_def Let_def)
  let ?apath = "filepath_Join (Dir p) (archivedFilename (filename p) (time_Format (clock w2 location)))"
  obtain r3 w3 where rn: "os_Rename ?path ?apath w2 = (r3, w3)" by (cases "os_Rename ?path ?apath w2")
  have w3: "w' = w3"
  proof (cases r3)
    case None
    obtain r4 w4 where op: "os_OpenFile ?path rotate_flags w3 = (r4, w4)"
      by (cases "os_OpenFile ?path rotate_flags w3")
    with fp rot s r1 c r2 rn None show ?thesis
      by (cases r4) (auto simp: RotateFile_def Let_def)
  next
    case (Some e3)
    with fp rot s r1 c r2 rn show ?thesis by (auto simp: RotateFile_def Let_def)
  qed
  have r3: "r3 \<noteq> None"
  proof
    assume n: "r3 = None"
    obtain r4 w4 where op: "os_OpenFile ?path rotate_flags w3 = (r4, w4)"
      by (cases "os_OpenFile ?path rotate_flags w3")
    with fp rot s r1 c r2 rn n show False
      by (cases r4) (auto simp: RotateFile_def Let_def)
  qed
  note f1 = file_Sync_frame [OF s] and f2 = file_Close_frame [OF c] and f3 = os_Rename_frame [OF rn]
  have cl: "clock w2 = clock w" using f1 f2 by (simp add: emit_def)
  have fs: "fsroot w3 = fsroot w"
    using rn r3 f1 f2
    by (auto simp: os_Rename_def emit_def Let_def split: if_splits option.splits)
  from file_Close_ok [OF c [unfolded r2]] f3 w3 cl fs show ?thesis by simp
qed








lemma os_Remove_frame:
  "os_Remove name w = (r, w1) \<Longrightarrow>
     trace w1 = trace w @ [SysRemove name] \<and> cwd w1 = cwd w \<and> clock w1 = clock w \<and>
     fault w1 = fault w \<and> fdtab w1 = fdtab w \<and> stdout w1 = stdout w"
  by (auto simp: os_Remove_def emit_def Let_def split: if_splits option.splits node.splits list.splits)














lemma os_Remove_changes: "os_Remove name w \<noteq> (None, w)"
proof
  assume "os_Remove name w = (None, w)"
  from os_Remove_frame [OF this] show False by simp
qed








lemma resolve_empty: "resolve wd [] = wd"
  by (simp add: resolve_def norm_step_def)






















section \<open>The claims\<close>

text \<open>
  C1. With a tail of 10 bytes and a remote file of 100 bytes, the initial fetch of \<^verbatim>\<open>Start\<close>
  asks for bytes 90 to 99, but the offset is still 0 when the loop begins (whatever the
  portal and the network, \<^verbatim>\<open>Start\<close> leaves the offset as it was before the first poll),
  so that the first poll asks for bytes 0 to 99.
\<close>

theorem C1_initial_fetch_offset:
  "offset (fst (Start ex_portal ex_net [] ex_world)) = 0 \<and>
   trace (snd (Start ex_portal ex_net [] ex_world)) =
     [NetDo \<lparr>rmethod = ''HEAD'', rurl = ''http://h/access.log'', rheader = []\<rparr>,
      NetDo \<lparr>rmethod = ''GET'', rurl = ''http://h/access.log'',
             rheader = [(''Range'', ''bytes=90-99'')]\<rparr>] \<and>
   trace (snd (Start ex_portal ex_net [ex_net] ex_world)) =
     [NetDo \<lparr>rmethod = ''HEAD'', rurl = ''http://h/access.log'', rheader = []\<rparr>,
      NetDo \<lparr>rmethod = ''GET'', rurl = ''http://h/access.log'',
             rheader = [(''Range'', ''bytes=90-99'')]\<rparr>,
      NetDo \<lparr>rmethod = ''HEAD'', rurl = ''http://h/access.log'', rheader = []\<rparr>,
      NetDo \<lparr>rmethod = ''GET'', rurl = ''http://h/access.log'',
             rheader = [(''Range'', ''bytes=0-99'')]\<rparr>] \<and>
   (\<forall>p nt w. offset (fst (Start p nt [] w)) = offset p)"
  using ex_start ex_start_tick Start_no_ticks_offset by simp

text \<open>
  C2. On one poll the offset either stays, or grows to a larger probed size, or, exactly
  when the probe succeeds with a size below the offset, \<^verbatim>\<open>RotateFile\<close> is entered once and
  the offset is 0 afterwards, whatever \<^verbatim>\<open>RotateFile\<close> returned. Over any run of polls
  with no rotation the offset does not decrease.
\<close>

theorem C2_offset_generation:
  assumes "tick p nt w = (p', w')"
  shows "(case LogSize p nt w of
        (Inl e, w1) \<Rightarrow> offset p' = offset p \<and> rotations w' = rotations w
      | (Inr S, w1) \<Rightarrow>
          if S <s offset p
          then offset p' = 0 \<and> rotations w' = Suc (rotations w) \<and>
               p' = (fst (snd (RotateFile p w1)))\<lparr>offset := 0\<rparr>
          else rotations w' = rotations w \<and>
               (offset p' = offset p \<or> (offset p <s S \<and> offset p' = S))) \<and>
     (\<forall>nts. rotations (snd (run_ticks p nts w)) = rotations w \<longrightarrow>
        offset p \<le>s offset (fst (run_ticks p nts w)))"
proof
  show "case LogSize p nt w of
        (Inl e, w1) \<Rightarrow> offset p' = offset p \<and> rotations w' = rotations w
      | (Inr S, w1) \<Rightarrow>
          if S <s offset p
          then offset p' = 0 \<and> rotations w' = Suc (rotations w) \<and>
               p' = (fst (snd (RotateFile p w1)))\<lparr>offset := 0\<rparr>
          else rotations w' = rotations w \<and>
               (offset p' = offset p \<or> (offset p <s S \<and> offset p' = S))"
    using assms by (rule tick_step)
  show "\<forall>nts. rotations (snd (run_ticks p nts w)) = rotations w \<longrightarrow>
        offset p \<le>s offset (fst (run_ticks p nts w))"
    using run_ticks_same_generation [OF prod.collapse [symmetric]] by blast
qed

theorem C2_offset_generation_witness:
  "fst (LogSize (ex_portal\<lparr>offset := 100\<rparr>) ex_net_shrunk ex_world) = Inr 40 \<and>
   offset (fst (tick (ex_portal\<lparr>offset := 100\<rparr>) ex_net_shrunk ex_world)) = 0 \<and>
   rotations (snd (tick (ex_portal\<lparr>offset := 100\<rparr>) ex_net_shrunk ex_world)) = Suc (rotations ex_world) \<and>
   rotations (snd (run_ticks ex_portal [ex_net] ex_world)) = rotations ex_world \<and>
   offset ex_portal \<le>s offset (fst (run_ticks ex_portal [ex_net] ex_world))"
proof -
  have lt: "(40 :: int64) <s 100" by simp
  have o: "offset (ex_portal\<lparr>offset := 100\<rparr>) = 100" by simp
  have le: "offset ex_portal \<le>s 100" by (simp add: ex_portal_def word_sle_eq)
  from C2_offset_generation [OF prod.collapse [symmetric],
      where p = "ex_portal\<lparr>offset := 100\<rparr>" and nt = ex_net_shrunk and w = ex_world]
    C2_offset_generation [OF prod.collapse [symmetric],
      where p = ex_portal and nt = ex_net and w = ex_world]
    ex_logsize_shrunk ex_run_grow ex_rotations0 le
  show ?thesis
    by (simp only: case_prod_beta sum.case o lt if_True) simp
qed

text \<open>
  C3, as stated: every rotation of an enabled file sink ends with a fresh file at the live
  path, also when the rename fails. It does not. Here the live file is missing, the rename
  fails, \<^verbatim>\<open>RotateFile\<close> returns that error, and the portal keeps its closed file and its
  old writer; nothing is opened and the live path still does not exist.
\<close>

theorem C3_rotate_rename_fails:
  "FilePortal ex_portal \<and>
   fst (RotateFile ex_portal ex_world_gone) = Some (Wrapped ''rename file'' (Errno ''ENOENT'')) \<and>
   fst (snd (RotateFile ex_portal ex_world_gone)) = ex_portal \<and>
   file' ex_portal = Some 3 \<and> writer ex_portal = [Stdout, FileSink 3] \<and>
   fdtab (snd (snd (RotateFile ex_portal ex_world_gone))) 3 = None \<and>
   lookup (fsroot (snd (snd (RotateFile ex_portal ex_world_gone)))) [''logs'', ''access.log''] = None \<and>
   trace (snd (snd (RotateFile ex_portal ex_world_gone))) =
     [RotateCalled, SysSync 3, SysClose 3,
      SysRename ''/logs/access.log'' ''/logs/access-2023-11-15T06-13-20.007.log'']"
  by (simp add: ex_rotate_eval ex_world_gone_def)

text \<open>
  C3, amended: when the file sink is enabled, a rotation that returns no error ends with a
  newly opened descriptor on the live path, in create, append and read-write mode, the
  path being a file, and with the writer rebuilt around it; a rotation that returns an
  error leaves the portal as it was, and after a failed rename the old file is closed, the
  files are untouched and the rename was the last system call.
\<close>

theorem C3_rotate_reopens:
  assumes "FilePortal p" and "RotateFile p w = (r, p', w')"
  shows "(case r of
        None \<Rightarrow>
          file' p' = Some (next_fd w) \<and>
          fdtab w' (next_fd w) =
            Some (resolve (cwd w) (filepath_Join (Dir p) (filename p)),
                  [O_CREATE, O_APPEND, O_RDWR]) \<and>
          (\<exists>s. lookup (fsroot w') (resolve (cwd w) (filepath_Join (Dir p) (filename p)))
                 = Some (FileN s)) \<and>
          writer p' = FileSink (next_fd w) # (if ConsolePortal p then [Stdout] else []) \<and>
          last (trace w') = SysOpen (filepath_Join (Dir p) (filename p)) [O_CREATE, O_APPEND, O_RDWR]
      | Some e \<Rightarrow>
          p' = p \<and>
          (\<forall>e1. e = Wrapped ''rename file'' e1 \<longrightarrow>
             (\<forall>fd. file' p = Some fd \<longrightarrow> fdtab w' fd = None) \<and> fsroot w' = fsroot w \<and>
             last (trace w') =
               SysRename (filepath_Join (Dir p) (filename p))
                 (filepath_Join (Dir p)
                    (archivedFilename (filename p) (time_Format (clock w location))))))"
proof (cases r)
  case None
  with assms RotateFile_ok [of p w p' w'] show ?thesis by simp
next
  case (Some e)
  with assms RotateFile_err [of p w e p' w'] RotateFile_rename_err [of p w _ p' w']
  show ?thesis by auto
qed

theorem C3_rotate_reopens_witness:
  "FilePortal ex_portal \<and>
   fst (RotateFile ex_portal ex_world) = None \<and>
   file' (fst (snd (RotateFile ex_portal ex_world))) = Some 4 \<and>
   fdtab (snd (snd (RotateFile ex_portal ex_world))) 4 =
     Some ([''logs'', ''access.log''], [O_CREATE, O_APPEND, O_RDWR]) \<and>
   (\<exists>s. lookup (fsroot (snd (snd (RotateFile ex_portal ex_world)))) [''logs'', ''access.log'']
          = Some (FileN s)) \<and>
   writer (fst (snd (RotateFile ex_portal ex_world))) = [FileSink 4, Stdout]"
proof -
  have e: "RotateFile ex_portal ex_world =
        (fst (RotateFile ex_portal ex_world), fst (snd (RotateFile ex_portal ex_world)),
         snd (snd (RotateFile ex_portal ex_world)))"
    by simp
  have f: "FilePortal ex_portal" "ConsolePortal ex_portal" "Dir ex_portal = ''/logs''"
    "filename ex_portal = ''access.log''"
    by (simp_all add: ex_portal_def)
  have w: "next_fd ex_world = 4" "cwd ex_world = [''work'']" by (simp_all add: ex_world_def)
  from C3_rotate_reopens [OF f(1) e] ex_rot_fst f(1) show ?thesis
    by (simp add: f w filepath_Join_def ex_res1)
qed







text \<open>
  C6. On a poll whose size probe fails, or whose fetch of \<open>[offset, S)\<close> fails, the portal is
  left as it was (in particular its offset) and \<^verbatim>\<open>RotateFile\<close> is not entered; a next
  poll that finds a larger size asks again for the range starting at the same offset.
\<close>

theorem C6_failed_tick:
  assumes "tick p nt w = (p', w')"
    and "(\<exists>e w1. LogSize p nt w = (Inl e, w1)) \<or>
       (\<exists>S w1 e w2. LogSize p nt w = (Inr S, w1) \<and> offset p <s S \<and>
           FetchIncrContent p nt (offset p) S w1 = (Some e, w2))"
  shows "p' = p \<and> offset p' = offset p \<and> rotations w' = rotations w \<and>
     (\<forall>nt2 S2 w3. LogSize p' nt2 w' = (Inr S2, w3) \<and> offset p <s S2 \<and> url_err nt2 (URL p) = None
        \<longrightarrow> trace (snd (tick p' nt2 w')) = trace w3 @ [NetDo (range_request p (offset p) S2)])"
proof -
  from tick_failed [OF assms] have e: "p' = p" and r: "rotations w' = rotations w" by simp_all
  show ?thesis
    unfolding e using r tick_fetch_request by blast
qed

theorem C6_failed_tick_witness:
  "(\<exists>e w1. LogSize ex_portal ex_net_down ex_world = (Inl e, w1)) \<and>
   fst (tick ex_portal ex_net_down ex_world) = ex_portal \<and>
   rotations (snd (tick ex_portal ex_net_down ex_world)) = rotations ex_world \<and>
   (\<exists>S w1 e w2. LogSize ex_portal ex_net_norange ex_world = (Inr S, w1) \<and>
       offset ex_portal <s S \<and>
       FetchIncrContent ex_portal ex_net_norange (offset ex_portal) S w1 = (Some e, w2)) \<and>
   fst (tick ex_portal ex_net_norange ex_world) = ex_portal \<and>
   rotations (snd (tick ex_portal ex_net_norange ex_world)) = rotations ex_world"
proof -
  have a: "\<exists>e w1. LogSize ex_portal ex_net_down ex_world = (Inl e, w1)"
    using ex_logsize_down by blast
  have o: "offset ex_portal = 0" by (simp add: ex_portal_def)
  have b: "\<exists>S w1 e w2. LogSize ex_portal ex_net_norange ex_world = (Inr S, w1) \<and>
       offset ex_portal <s S \<and>
       FetchIncrContent ex_portal ex_net_norange (offset ex_portal) S w1 = (Some e, w2)"
    apply (rule exI [of _ 100])
    using ex_fetch_norange by (simp add: o word_sless_alt)
  from C6_failed_tick [OF prod.collapse [symmetric] disjI1 [OF a]]
    C6_failed_tick [OF prod.collapse [symmetric] disjI2 [OF b]] a b
  show ?thesis by simp
qed

text \<open>
  C7. \<^verbatim>\<open>FetchIncrContent(start, end)\<close> sends, when the request can be built, exactly one
  request, a GET with the header \<open>Range: bytes=start-(end-1)\<close>. It returns an error exactly
  when the request cannot be built, the transport fails, the status is not 206, or the copy
  of the body to the writer fails. When the status is not 206 nothing is written: the
  standard output and the files are as before.
\<close>

theorem C7_fetch_range:
  assumes "FetchIncrContent p nt start end' w = (r, w')"
  shows "(url_err nt (URL p) = None \<longrightarrow>
        trace w' = trace w @
          [NetDo \<lparr>rmethod = ''GET'', rurl = URL p,
                  rheader = [(''Range'', ''bytes='' @ fmt_d start @ ''-'' @ fmt_d (end' - 1))]\<rparr>]) \<and>
     (url_err nt (URL p) \<noteq> None \<longrightarrow> trace w' = trace w) \<and>
     ((r \<noteq> None) =
        (url_err nt (URL p) \<noteq> None \<or>
         (\<exists>e. round_trip nt (range_request p start end') = Inl e) \<or>
         (\<exists>resp. round_trip nt (range_request p start end') = Inr resp \<and>
            (StatusCode resp \<noteq> 206 \<or>
             fst (io_Copy (writer p) (Body resp) (emit (NetDo (range_request p start end')) w))
               \<noteq> None)))) \<and>
     (\<forall>resp. url_err nt (URL p) = None \<and>
        round_trip nt (range_request p start end') = Inr resp \<and> StatusCode resp \<noteq> 206 \<longrightarrow>
          r = Some (BadStatus (StatusCode resp)) \<and> stdout w' = stdout w \<and> fsroot w' = fsroot w)"
  using assms
  by (auto simp: FetchIncrContent_def http_NewRequest_def client_Do_def header_Set_def Let_def
                 emit_def range_request_def
           split: option.splits sum.splits if_splits prod.splits dest!: io_Copy_trace)

theorem C7_fetch_range_witness:
  "fst (FetchIncrContent ex_portal ex_net 90 100 ex_world) = None \<and>
   trace (snd (FetchIncrContent ex_portal ex_net 90 100 ex_world)) =
     trace ex_world @
     [NetDo \<lparr>rmethod = ''GET'', rurl = ''http://h/access.log'',
             rheader = [(''Range'', ''bytes=90-99'')]\<rparr>] \<and>
   url_err ex_net_norange (URL ex_portal) = None \<and>
   round_trip ex_net_norange (range_request ex_portal 90 100) =
     Inr \<lparr>StatusCode = 200, declared_length = Some 100,
          Body = \<lparr>chunks = [''whole file''], read_err = None\<rparr>\<rparr> \<and>
   fst (FetchIncrContent ex_portal ex_net_norange 90 100 ex_world) = Some (BadStatus 200) \<and>
   stdout (snd (FetchIncrContent ex_portal ex_net_norange 90 100 ex_world)) = stdout ex_world \<and>
   fsroot (snd (FetchIncrContent ex_portal ex_net_norange 90 100 ex_world)) = fsroot ex_world"
proof -
  have u: "url_err ex_net (URL ex_portal) = None" "url_err ex_net_norange (URL ex_portal) = None"
    by (simp_all add: ex_net_def ex_net_norange_def)
  have f: "fmt_d (90 :: int64) = ''90''" "fmt_d (100 - 1 :: int64) = ''99''"
    by (simp_all add: fmt_d_def fmt_int_def digits_eval)
  have r: "round_trip ex_net_norange (range_request ex_portal 90 100) =
     Inr \<lparr>StatusCode = 200, declared_length = Some 100,
          Body = \<lparr>chunks = [''whole file''], read_err = None\<rparr>\<rparr>"
    by (simp add: ex_net_norange_def)
  from C7_fetch_range [OF prod.collapse [symmetric],
      where p = ex_portal and nt = ex_net and start = 90 and end' = 100 and w = ex_world]
    C7_fetch_range [OF prod.collapse [symmetric],
      where p = ex_portal and nt = ex_net_norange and start = 90 and end' = 100 and w = ex_world]
    u r ex_fetch_ok
  show ?thesis by (simp add: f ex_portal_def)
qed







end
